theory Spec2Isabelle
  imports
    Main
    "HOL-Library.Char_ord"
    "HOL-Library.List_Lexorder"
    "HOL-Library.Product_Lexorder"
begin

section \<open>Python values bound to template variables\<close>

text \<open>
  The variables of a render call arrive as a decoded JSON object: every value is
  \<open>None\<close>, a boolean, an integer, a string, a list or a dictionary (floating-point
  numbers are left out of the model). A dictionary is kept as an association list
  with distinct keys, in insertion order. Strings are lists of characters; a
  \<open>char\<close> stands for the code point of the same number (0 to 255).
\<close>

datatype pyval =
    PNone
  | PBool bool
  | PInt int
  | PStr string
  | PList "pyval list"
  | PDict "(string \<times> pyval) list"

type_synonym variables = "string \<rightharpoonup> pyval"

text \<open>Truth value of a Python object, as the \<open>and\<close> of \<open>_process_conditionals\<close> tests it.\<close>

fun py_bool :: "pyval \<Rightarrow> bool" where
  "py_bool PNone = False"
| "py_bool (PBool b) = b"
| "py_bool (PInt i) = (i \<noteq> 0)"
| "py_bool (PStr s) = (s \<noteq> [])"
| "py_bool (PList xs) = (xs \<noteq> [])"
| "py_bool (PDict d) = (d \<noteq> [])"

definition digit_char :: "nat \<Rightarrow> char" where
  "digit_char n = char_of (48 + n)"

fun nat_digits :: "nat \<Rightarrow> string" where
  "nat_digits n =
     (if n < 10 then [digit_char n] else nat_digits (n div 10) @ [digit_char (n mod 10)])"

definition int_str :: "int \<Rightarrow> string" where
  "int_str i = (if i < 0 then CHR ''-'' # nat_digits (nat (- i)) else nat_digits (nat i))"

definition hex_char :: "nat \<Rightarrow> char" where
  "hex_char n = (if n < 10 then char_of (48 + n) else char_of (87 + n))"

text \<open>\<open>repr\<close> of a string: the quote is chosen from the content, then each character is
  escaped.\<close>

definition repr_char :: "char \<Rightarrow> char \<Rightarrow> string" where
  "repr_char quote c =
     (let n = (of_char c :: nat) in
      if c = quote \<or> c = CHR 0x5C then [CHR 0x5C, c]
      else if n = 9 then [CHR 0x5C, CHR ''t'']
      else if n = 10 then [CHR 0x5C, CHR ''n'']
      else if n = 13 then [CHR 0x5C, CHR ''r'']
      else if n < 32 \<or> (127 \<le> n \<and> n \<le> 160) \<or> n = 173
        then [CHR 0x5C, CHR ''x'', hex_char (n div 16), hex_char (n mod 16)]
      else [c])"

definition repr_str :: "string \<Rightarrow> string" where
  "repr_str s =
     (let quote = (if CHR 0x27 \<in> set s \<and> CHR 0x22 \<notin> set s then CHR 0x22 else CHR 0x27)
      in [quote] @ concat (map (repr_char quote) s) @ [quote])"

fun join :: "string \<Rightarrow> string list \<Rightarrow> string" where
  "join sep [] = []"
| "join sep [x] = x"
| "join sep (x # y # ys) = x @ sep @ join sep (y # ys)"

fun py_repr :: "pyval \<Rightarrow> string" where
  "py_repr PNone = ''None''"
| "py_repr (PBool b) = (if b then ''True'' else ''False'')"
| "py_repr (PInt i) = int_str i"
| "py_repr (PStr s) = repr_str s"
| "py_repr (PList xs) = ''['' @ join '', '' (map py_repr xs) @ '']''"
| "py_repr (PDict d) =
     ''{'' @ join '', '' (map (\<lambda>kv. repr_str (fst kv) @ '': '' @ py_repr (snd kv)) d) @ ''}''"

text \<open>\<open>str(value)\<close>: a string is itself, every other value prints as its \<open>repr\<close>.\<close>

definition py_str :: "pyval \<Rightarrow> string" where
  "py_str v = (case v of PStr s \<Rightarrow> s | _ \<Rightarrow> py_repr v)"

text \<open>\<open>html.escape\<close> with its default \<open>quote=True\<close>.\<close>

definition escape_char :: "char \<Rightarrow> string" where
  "escape_char c =
     (if c = CHR ''&'' then ''&amp;''
      else if c = CHR ''<'' then ''&lt;''
      else if c = CHR ''>'' then ''&gt;''
      else if c = CHR 0x22 then ''&quot;''
      else if c = CHR 0x27 then ''&#x27;''
      else [c])"

definition html_escape :: "string \<Rightarrow> string" where
  "html_escape s = concat (map escape_char s)"

section \<open>The three patterns of the renderer\<close>

text \<open>
  \<open>\w\<close> of a Python 3 \<open>str\<close> pattern on the code points 0 to 255: the ASCII letters,
  digits and underscore, and the Latin-1 letters and numerals.
\<close>

definition word_char :: "char \<Rightarrow> bool" where
  "word_char c =
     (let n = (of_char c :: nat) in
      (48 \<le> n \<and> n \<le> 57) \<or> (65 \<le> n \<and> n \<le> 90) \<or> n = 95 \<or> (97 \<le> n \<and> n \<le> 122)
      \<or> n = 170 \<or> n = 178 \<or> n = 179 \<or> n = 181 \<or> n = 185 \<or> n = 186
      \<or> (188 \<le> n \<and> n \<le> 190) \<or> (192 \<le> n \<and> n \<le> 214) \<or> (216 \<le> n \<and> n \<le> 246)
      \<or> 248 \<le> n)"

definition starts_with :: "string \<Rightarrow> string \<Rightarrow> bool" where
  "starts_with p s = (take (length p) s = p)"

text \<open>
  A tag is an opener (\<open>{{\<close>, \<open>{{#if \<close> or \<open>{{#each \<close>), the longest run of word
  characters, which must not be empty, and \<open>}}\<close>. The run is greedy, and a shorter run
  can never be followed by \<open>}}\<close>, so the match at a position is unique. The result is the
  name and the text after the tag.
\<close>

definition match_tag :: "string \<Rightarrow> string \<Rightarrow> (string \<times> string) option" where
  "match_tag opener s =
     (if starts_with opener s then
        (let s1 = drop (length opener) s;
             name = takeWhile word_char s1;
             s2 = dropWhile word_char s1
         in if name \<noteq> [] \<and> starts_with ''}}'' s2 then Some (name, drop 2 s2) else None)
      else None)"

text \<open>\<open>(.*?)\<close> followed by a literal closer, with DOTALL: the text up to the first
  occurrence of the closer, and the text after it.\<close>

fun find_sub :: "string \<Rightarrow> string \<Rightarrow> (string \<times> string) option" where
  "find_sub pat [] = (if pat = [] then Some ([], []) else None)"
| "find_sub pat (c # cs) =
     (if starts_with pat (c # cs) then Some ([], drop (length pat) (c # cs))
      else map_option (\<lambda>(b, r). (c # b, r)) (find_sub pat cs))"

definition match_block ::
  "string \<Rightarrow> string \<Rightarrow> string \<Rightarrow> (string \<times> string \<times> string) option" where
  "match_block opener closer s =
     (case match_tag opener s of
        None \<Rightarrow> None
      | Some (name, s1) \<Rightarrow>
          (case find_sub closer s1 of
             None \<Rightarrow> None
           | Some (body, rest) \<Rightarrow> Some (name, body, rest)))"

definition VARIABLE_PATTERN :: "string \<Rightarrow> (string \<times> string) option" where
  "VARIABLE_PATTERN = match_tag ''{{''"

definition CONDITIONAL_PATTERN :: "string \<Rightarrow> (string \<times> string \<times> string) option" where
  "CONDITIONAL_PATTERN = match_block ''{{#if '' ''{{/if}}''"

definition LOOP_PATTERN :: "string \<Rightarrow> (string \<times> string \<times> string) option" where
  "LOOP_PATTERN = match_block ''{{#each '' ''{{/each}}''"

lemma match_tag_shape:
  assumes "match_tag opener s = Some (name, rest)"
  shows "s = opener @ name @ ''}}'' @ rest" and "name \<noteq> []" and "\<forall>c \<in> set name. word_char c"
proof -
  let ?s1 = "drop (length opener) s"
  let ?s2 = "dropWhile word_char ?s1"
  from assms have sw: "starts_with opener s"
    by (auto simp: match_tag_def split: if_splits)
  from assms have nm: "name = takeWhile word_char ?s1" and ne: "name \<noteq> []"
    and cl: "starts_with ''}}'' ?s2" and rs: "rest = drop 2 ?s2"
    by (auto simp: match_tag_def Let_def split: if_splits)
  from sw have "s = opener @ ?s1"
    by (metis append_take_drop_id starts_with_def)
  moreover have "?s1 = name @ ?s2"
    by (simp add: nm)
  moreover from cl rs have "?s2 = ''}}'' @ rest"
    by (metis append_take_drop_id length_Cons list.size(3) numeral_2_eq_2 starts_with_def)
  ultimately show "s = opener @ name @ ''}}'' @ rest"
    by metis
  show "name \<noteq> []" by (rule ne)
  show "\<forall>c \<in> set name. word_char c"
    unfolding nm by (auto dest: set_takeWhileD)
qed

lemma find_sub_shape: "find_sub pat s = Some (b, r) \<Longrightarrow> s = b @ pat @ r"
proof (induction s arbitrary: b)
  case Nil
  then show ?case by (simp split: if_splits)
next
  case (Cons c cs)
  show ?case
  proof (cases "starts_with pat (c # cs)")
    case True
    with Cons.prems have "b = []" and "r = drop (length pat) (c # cs)" by simp_all
    with True show ?thesis
      by (metis append_Nil append_take_drop_id starts_with_def)
  next
    case False
    with Cons.prems obtain b' where "find_sub pat cs = Some (b', r)" and "b = c # b'"
      by auto
    with Cons.IH show ?thesis by simp
  qed
qed

lemma match_block_shape:
  "match_block opener closer s = Some (name, body, rest) \<Longrightarrow>
     s = opener @ name @ ''}}'' @ body @ closer @ rest"
  by (auto simp: match_block_def split: option.splits
           dest!: match_tag_shape(1) find_sub_shape)

lemma match_tag_shorter: "match_tag opener s = Some (name, rest) \<Longrightarrow> length rest < length s"
  by (drule match_tag_shape(1)) simp

lemma match_block_shorter:
  "match_block opener closer s = Some (name, body, rest) \<Longrightarrow> length rest < length s"
  by (drule match_block_shape) simp

section \<open>The renderer\<close>

text \<open>
  The exception classes of the renderer module and the one built-in exception the
  renderer can raise. \<open>TimeoutError\<close> and \<open>VariableMissingError\<close> are subclasses of
  \<open>RenderError\<close>; a plain \<open>RenderError\<close> object carries the exception it was raised
  from, and so does the \<open>RetryError\<close> of the retry decorator. The message of a
  \<open>VariableMissingError\<close> names the field (by its prefix) and joins the missing names;
  the model keeps the field and the list of names.
\<close>

datatype field = Content | HtmlContent | Subject

datatype exn =
    TimeoutError
  | VariableMissingError field "string list"
  | TypeError
  | RenderError exn
  | RetryError exn

text \<open>\<open>isinstance(e, TimeoutError)\<close>, the predicate of the retry decorator: only an
  object of the subclass itself, never the base class raised in its place.\<close>

fun is_TimeoutError :: "exn \<Rightarrow> bool" where
  "is_TimeoutError TimeoutError = True"
| "is_TimeoutError _ = False"

subsection \<open>Conditional blocks\<close>

text \<open>The callback of \<open>_process_conditionals\<close>: the replacement text, and the names it
  appends to \<open>missing_vars\<close>.\<close>

definition replace_conditional :: "variables \<Rightarrow> string \<Rightarrow> string \<Rightarrow> string \<times> string list" where
  "replace_conditional variables var_name block_content =
     (case variables var_name of
        Some var_value \<Rightarrow>
          if py_bool var_value \<and> var_value \<notin> set [PStr ''false'', PStr ''0'', PStr []]
          then (block_content, [])
          else ([], [])
      | None \<Rightarrow> ([], [var_name]))"

text \<open>
  \<open>CONDITIONAL_PATTERN.sub(replace_conditional, content)\<close>: the text is scanned from
  left to right; where the pattern matches, the match is replaced and the scan goes on
  after it, elsewhere one character is copied.
\<close>

function process_conditionals :: "string \<Rightarrow> variables \<Rightarrow> string \<times> string list" where
  "process_conditionals [] variables = ([], [])"
| "process_conditionals (c # cs) variables =
     (case CONDITIONAL_PATTERN (c # cs) of
        Some (var_name, block_content, rest) \<Rightarrow>
          (let (repl, missing) = replace_conditional variables var_name block_content;
               (result, missing_vars) = process_conditionals rest variables
           in (repl @ result, missing @ missing_vars))
      | None \<Rightarrow>
          (let (result, missing_vars) = process_conditionals cs variables
           in (c # result, missing_vars)))"
  by pat_completeness auto
termination
  by (relation "measure (\<lambda>(s, v). length s)")
     (auto simp: CONDITIONAL_PATTERN_def dest: match_block_shorter)

subsection \<open>Plain variables\<close>

text \<open>\<open>VARIABLE_PATTERN.finditer(content)\<close>: the matches from left to right, each with
  its span and its name; \<open>i\<close> is the position of the text still to scan.\<close>

function finditer_variable :: "nat \<Rightarrow> string \<Rightarrow> ((nat \<times> nat) \<times> string) list" where
  "finditer_variable i [] = []"
| "finditer_variable i (c # cs) =
     (case VARIABLE_PATTERN (c # cs) of
        Some (var_name, rest) \<Rightarrow>
          (let e = i + (length (c # cs) - length rest)
           in ((i, e), var_name) # finditer_variable e rest)
      | None \<Rightarrow> finditer_variable (Suc i) cs)"
  by pat_completeness auto
termination
  by (relation "measure (\<lambda>(i, s). length s)")
     (auto simp: VARIABLE_PATTERN_def dest: match_tag_shorter)

text \<open>The value substituted for a bound name: \<open>None\<close> becomes the empty string, the
  value is converted with \<open>str\<close> and escaped when asked.\<close>

definition substituted :: "pyval \<Rightarrow> bool \<Rightarrow> string" where
  "substituted value escape_html =
     (let v = (if value = PNone then PStr [] else value);
          s = py_str v
      in if escape_html then html_escape s else s)"

text \<open>The first loop of \<open>_process_variables\<close>: the replacements of the bound names and
  the list of the unbound ones.\<close>

fun collect ::
  "variables \<Rightarrow> bool \<Rightarrow> ((nat \<times> nat) \<times> string) list \<Rightarrow>
     ((nat \<times> nat) \<times> string) list \<times> string list" where
  "collect variables escape_html [] = ([], [])"
| "collect variables escape_html ((span, var_name) # ms) =
     (let (replacements, missing_vars) = collect variables escape_html ms
      in case variables var_name of
           Some value \<Rightarrow> ((span, substituted value escape_html) # replacements, missing_vars)
         | None \<Rightarrow> (replacements, var_name # missing_vars))"

text \<open>\<open>result[start:end] = value\<close> on the list of characters.\<close>

definition splice :: "string \<Rightarrow> (nat \<times> nat) \<times> string \<Rightarrow> string" where
  "splice result r = (case r of ((start, end), value) \<Rightarrow> take start result @ value @ drop end result)"

definition process_variables :: "string \<Rightarrow> variables \<Rightarrow> bool \<Rightarrow> string \<times> string list" where
  "process_variables content variables escape_html =
     (let (replacements, missing_vars) = collect variables escape_html (finditer_variable 0 content);
          result = foldl splice content (rev (sort replacements))
      in (result, missing_vars))"

text \<open>
  \<open>_process_variables(content, variables, escape_html)\<close> declares three positional
  parameters without defaults: a call that leaves \<open>escape_html\<close> out raises
  \<open>TypeError\<close> before the body runs. The third argument of a call is therefore an
  option, \<open>None\<close> where the call site does not pass it.
\<close>

definition call_process_variables ::
  "string \<Rightarrow> variables \<Rightarrow> bool option \<Rightarrow> exn + (string \<times> string list)" where
  "call_process_variables content variables escape_html =
     (case escape_html of
        None \<Rightarrow> Inl TypeError
      | Some e \<Rightarrow> Inr (process_variables content variables e))"

subsection \<open>Loop blocks\<close>

text \<open>\<open>{**variables, 'item': item}\<close>, updated with the item's own keys when the item is a
  dictionary (where a key is repeated in the association list, the last entry counts).\<close>

definition item_context :: "variables \<Rightarrow> pyval \<Rightarrow> variables" where
  "item_context variables item =
     (let ctx = variables(''item'' \<mapsto> item)
      in case item of PDict d \<Rightarrow> ctx ++ map_of (rev d) | _ \<Rightarrow> ctx)"

text \<open>The \<open>for item in items\<close> loop of \<open>replace_loop\<close>; \<open>result\<close> is the text built so
  far. The call of \<open>_process_variables\<close> passes the block and the context only.\<close>

fun loop_items :: "variables \<Rightarrow> string \<Rightarrow> pyval list \<Rightarrow> string \<Rightarrow> exn + string" where
  "loop_items variables block_content [] result = Inr result"
| "loop_items variables block_content (item # items) result =
     (case call_process_variables block_content (item_context variables item) None of
        Inl e \<Rightarrow> Inl e
      | Inr (rendered_block, _) \<Rightarrow>
          loop_items variables block_content items (result @ rendered_block))"

definition replace_loop ::
  "variables \<Rightarrow> string \<Rightarrow> string \<Rightarrow> exn + (string \<times> string list)" where
  "replace_loop variables var_name block_content =
     (case variables var_name of
        Some items \<Rightarrow>
          (case items of
             PList xs \<Rightarrow>
               (case loop_items variables block_content xs [] of
                  Inl e \<Rightarrow> Inl e
                | Inr result \<Rightarrow> Inr (result, []))
           | _ \<Rightarrow> Inr ([], []))
      | None \<Rightarrow> Inr ([], [var_name]))"

text \<open>\<open>LOOP_PATTERN.sub(replace_loop, content)\<close>; an exception of the callback leaves
  the substitution at once.\<close>

function process_loops :: "string \<Rightarrow> variables \<Rightarrow> exn + (string \<times> string list)" where
  "process_loops [] variables = Inr ([], [])"
| "process_loops (c # cs) variables =
     (case LOOP_PATTERN (c # cs) of
        Some (var_name, block_content, rest) \<Rightarrow>
          (case replace_loop variables var_name block_content of
             Inl e \<Rightarrow> Inl e
           | Inr (repl, missing) \<Rightarrow>
               (case process_loops rest variables of
                  Inl e \<Rightarrow> Inl e
                | Inr (result, missing_vars) \<Rightarrow> Inr (repl @ result, missing @ missing_vars)))
      | None \<Rightarrow>
          (case process_loops cs variables of
             Inl e \<Rightarrow> Inl e
           | Inr (result, missing_vars) \<Rightarrow> Inr (c # result, missing_vars)))"
  by pat_completeness auto
termination
  by (relation "measure (\<lambda>(s, v). length s)")
     (auto simp: LOOP_PATTERN_def dest: match_block_shorter)

subsection \<open>render\<close>

text \<open>
  \<open>render(template_content, variables, escape_html=True)\<close>. The result is
  \<open>list(set(missing_vars))\<close>: the names without repetition, in an order Python does not
  fix; the model keeps the order of first occurrence, and the theorems speak of the set.
\<close>

definition render :: "string \<Rightarrow> variables \<Rightarrow> bool \<Rightarrow> exn + (string \<times> string list)" where
  "render template_content variables escape_html =
     (if template_content = [] then Inr ([], [])
      else
        (let (rendered1, cond_missing) = process_conditionals template_content variables
         in case process_loops rendered1 variables of
              Inl e \<Rightarrow> Inl e
            | Inr (rendered2, loop_missing) \<Rightarrow>
                (case call_process_variables rendered2 variables (Some escape_html) of
                   Inl e \<Rightarrow> Inl e
                 | Inr (rendered3, var_missing) \<Rightarrow>
                     Inr (rendered3, remdups (cond_missing @ loop_missing @ var_missing)))))"

section \<open>The retry decorator\<close>

text \<open>
  \<open>@retry(stop=stop_after_attempt(n), wait=..., retry=...)\<close>: the function is called;
  a result is returned; an exception the retry predicate rejects is raised again as it
  is; an exception the predicate accepts leads to another call after the wait, unless
  \<open>n\<close> attempts were made, when it is wrapped into \<open>RetryError\<close>. The decorated
  function works on a state \<open>'s\<close>; the waits are not modelled.
\<close>

function tenacity_retry ::
  "nat \<Rightarrow> ('e \<Rightarrow> bool) \<Rightarrow> ('e \<Rightarrow> 'e) \<Rightarrow> ('s \<Rightarrow> ('e + 'a) \<times> 's) \<Rightarrow> nat \<Rightarrow> 's \<Rightarrow> ('e + 'a) \<times> 's" where
  "tenacity_retry stop retry_if retry_error f attempt_number s =
     (case f s of
        (Inr r, s') \<Rightarrow> (Inr r, s')
      | (Inl e, s') \<Rightarrow>
          if \<not> retry_if e then (Inl e, s')
          else if stop \<le> attempt_number then (Inl (retry_error e), s')
          else tenacity_retry stop retry_if retry_error f (Suc attempt_number) s')"
  by pat_completeness auto
termination
  by (relation "measure (\<lambda>(stop, retry_if, retry_error, f, attempt_number, s). stop - attempt_number)")
     auto

section \<open>Templates\<close>

datatype status = draft | active | archived

text \<open>
  A row of the table \<open>templates\<close>, with the fields the operations below read or write.
  The primary key is a UUID, kept as a number; \<open>organization\<close> is the nullable foreign
  key (the id of the organization); times are numbers of clock ticks.
\<close>

record template =
  id_pk :: nat
  code :: string
  template_type :: string
  subject :: string
  content :: string
  html_content :: string
  organization :: "string option"
  language :: string
  version :: int
  is_default :: bool
  status :: status
  published_at :: "int option"
  deactivated_at :: "int option"
  updated_by :: "string option"
  tags :: "string list"

subsection \<open>render_template\<close>

record rendered =
  rendered_subject :: string
  rendered_content :: string
  rendered_html :: string

text \<open>One field: \<open>render\<close> with escaping on, then the test of the missing names.\<close>

definition render_field :: "field \<Rightarrow> string \<Rightarrow> variables \<Rightarrow> exn + string" where
  "render_field f text variables =
     (case render text variables True of
        Inl e \<Rightarrow> Inl e
      | Inr (rendered_text, missing_vars) \<Rightarrow>
          if missing_vars \<noteq> [] then Inl (VariableMissingError f missing_vars)
          else Inr rendered_text)"

text \<open>
  The \<open>try\<close> block of \<open>render_template\<close>. \<open>elapsed\<close> is \<open>time.time() - start_time\<close> at
  the timeout test and \<open>render_timeout\<close> is \<open>settings.TEMPLATE_RENDER_TIMEOUT\<close>.
\<close>

definition render_try :: "int \<Rightarrow> int \<Rightarrow> template \<Rightarrow> variables \<Rightarrow> exn + rendered" where
  "render_try render_timeout elapsed t variables =
     (if elapsed > render_timeout then Inl TimeoutError
      else
        case (if content t \<noteq> [] then render_field Content (content t) variables else Inr []) of
          Inl e \<Rightarrow> Inl e
        | Inr r_content \<Rightarrow>
            (case (if html_content t \<noteq> [] then render_field HtmlContent (html_content t) variables
                   else Inr []) of
               Inl e \<Rightarrow> Inl e
             | Inr r_html \<Rightarrow>
                 (case (if subject t \<noteq> [] then render_field Subject (subject t) variables
                        else Inr (subject t)) of
                    Inl e \<Rightarrow> Inl e
                  | Inr r_subject \<Rightarrow>
                      Inr \<lparr>rendered_subject = r_subject, rendered_content = r_content,
                           rendered_html = r_html\<rparr>)))"

text \<open>
  One call of the undecorated function. Every exception of the \<open>try\<close> block is caught
  and replaced by a \<open>RenderError\<close> raised from it. Both branches call \<open>_log_render\<close>,
  which catches every exception of its own body and returns nothing, so it cannot
  change what the call returns or raises; the usage-log table and the usage counters
  are not part of the model, and neither are \<open>notification_id\<close> and \<open>organization_id\<close>,
  which only the log reads. The state is the number of calls made so far.
\<close>

definition render_template_call ::
  "int \<Rightarrow> int \<Rightarrow> template \<Rightarrow> variables \<Rightarrow> nat \<Rightarrow> (exn + rendered) \<times> nat" where
  "render_template_call render_timeout elapsed t variables calls =
     (case render_try render_timeout elapsed t variables of
        Inr r \<Rightarrow> (Inr r, Suc calls)
      | Inl e \<Rightarrow> (Inl (RenderError e), Suc calls))"

text \<open>
  The decorated \<open>render_template\<close>: at most two attempts, retried when the exception is
  an instance of \<open>TimeoutError\<close>. \<open>elapsed_at n\<close> is the clock difference seen by the call
  that follows \<open>n\<close> earlier calls.
\<close>

definition render_template ::
  "int \<Rightarrow> (nat \<Rightarrow> int) \<Rightarrow> template \<Rightarrow> variables \<Rightarrow> nat \<Rightarrow> (exn + rendered) \<times> nat" where
  "render_template render_timeout elapsed_at t variables calls =
     tenacity_retry 2 is_TimeoutError RetryError
       (\<lambda>n. render_template_call render_timeout (elapsed_at n) t variables n)
       1 calls"

section \<open>The model layer\<close>

text \<open>
  The table is the list of its rows, in insertion order. \<open>ValidationError\<close> and
  \<open>ValueError\<close> are raised by the model methods, \<open>IntegrityError\<close> by the database when
  a statement breaks a constraint of the table.
\<close>

datatype model_error = ValidationError | ValueError | IntegrityError

text \<open>
  \<open>unique_together = [['code', 'version', 'language', 'organization'],
  ['code', 'language', 'is_default', 'organization']]\<close>: each list is one UNIQUE
  constraint over its four columns, on every row of the table. As in SQL, a row whose
  \<open>organization\<close> is NULL is equal to no other row.
\<close>

definition unique_on :: "(template \<Rightarrow> 'k) \<Rightarrow> template list \<Rightarrow> bool" where
  "unique_on key rows = distinct (map key (filter (\<lambda>t. organization t \<noteq> None) rows))"

definition unique_together :: "template list \<Rightarrow> bool" where
  "unique_together rows =
     (unique_on (\<lambda>t. (code t, version t, language t, organization t)) rows \<and>
      unique_on (\<lambda>t. (code t, language t, is_default t, organization t)) rows)"

text \<open>\<open>Meta.ordering = ['-version']\<close> and \<open>order_by('-version')\<close>: highest version first
  (rows of equal version keep their table order, which SQL leaves open).\<close>

definition order_by_version_desc :: "template list \<Rightarrow> template list" where
  "order_by_version_desc rows = sort_key (\<lambda>t. - version t) rows"

text \<open>\<open>QuerySet.first()\<close>: the first row of the ordered query, or \<open>None\<close>.\<close>

definition first :: "template list \<Rightarrow> template option" where
  "first rows = (case order_by_version_desc rows of [] \<Rightarrow> None | t # _ \<Rightarrow> Some t)"

text \<open>\<open>self.save()\<close>: the row with the primary key of the instance is replaced, or the
  instance is inserted.\<close>

definition save :: "template list \<Rightarrow> template \<Rightarrow> template list" where
  "save rows self =
     (if \<exists>t \<in> set rows. id_pk t = id_pk self
      then map (\<lambda>t. if id_pk t = id_pk self then self else t) rows
      else rows @ [self])"

text \<open>
  \<open>Template.activate\<close>. The result is the value returned or the exception raised, and
  the table afterwards. The column \<open>updated_by\<close> is NOT NULL: a statement that writes
  \<open>None\<close> into it raises \<open>IntegrityError\<close>, as does one that breaks a UNIQUE constraint,
  and an \<open>IntegrityError\<close> inside \<open>transaction.atomic()\<close> rolls the block back.
\<close>

definition activate ::
  "template list \<Rightarrow> template \<Rightarrow> string option \<Rightarrow> int \<Rightarrow> (model_error + bool) \<times> template list" where
  "activate rows self updated_by' now =
     (if status self = active then (Inr False, rows)
      else if organization self = None then (Inl ValidationError, rows)
      else
        (let others = (\<lambda>t. code t = code self \<and> language t = language self \<and> is_default t
                            \<and> organization t = organization self \<and> id_pk t \<noteq> id_pk self);
             rows1 = map (\<lambda>t. if others t then t\<lparr>is_default := False, updated_by := updated_by'\<rparr>
                               else t) rows
         in if (updated_by' = None \<and> (\<exists>t \<in> set rows. others t)) \<or> \<not> unique_together rows1
            then (Inl IntegrityError, rows)
            else
              (let self1 = self\<lparr>status := active, published_at := Some now, is_default := True,
                                updated_by := updated_by'\<rparr>;
                   rows2 = save rows1 self1
               in if updated_by' = None \<or> \<not> unique_together rows2 then (Inl IntegrityError, rows)
                  else (Inr True, rows2))))"

text \<open>\<open>Template.archive\<close>.\<close>

definition archive ::
  "template list \<Rightarrow> template \<Rightarrow> string option \<Rightarrow> int \<Rightarrow> (model_error + bool) \<times> template list" where
  "archive rows self updated_by' now =
     (if status self = archived then (Inr False, rows)
      else if organization self = None then (Inl ValidationError, rows)
      else if is_default self \<and>
              \<not> (\<exists>t \<in> set rows. code t = code self \<and> language t = language self \<and> status t = active
                     \<and> organization t = organization self \<and> id_pk t \<noteq> id_pk self)
        then (Inl ValidationError, rows)
      else
        (let self1 = self\<lparr>status := archived, deactivated_at := Some now, is_default := False,
                          updated_by := updated_by'\<rparr>;
             rows1 = save rows self1
         in if updated_by' = None \<or> \<not> unique_together rows1 then (Inl IntegrityError, rows)
            else (Inr True, rows1)))"

text \<open>\<open>Template.get_active_template(code, language='en', organization_id=None)\<close>;
  \<open>not organization_id\<close> holds for \<open>None\<close> and for the empty string.\<close>

definition get_active_template ::
  "template list \<Rightarrow> string \<Rightarrow> string \<Rightarrow> string option \<Rightarrow> model_error + template option" where
  "get_active_template rows code' language' organization_id =
     (if organization_id = None \<or> organization_id = Some [] then Inl ValueError
      else
        (case first (filter (\<lambda>t. code t = code' \<and> language t = language' \<and> status t = active
                                 \<and> is_default t \<and> organization t = organization_id) rows) of
           Some t \<Rightarrow> Inr (Some t)
         | None \<Rightarrow>
             (case (if language' \<noteq> ''en''
                    then first (filter (\<lambda>t. code t = code' \<and> language t = ''en'' \<and> status t = active
                                            \<and> is_default t \<and> organization t = organization_id) rows)
                    else None) of
                Some t \<Rightarrow> Inr (Some t)
              | None \<Rightarrow>
                  Inr (first (filter (\<lambda>t. code t = code' \<and> status t = active
                                          \<and> organization t = organization_id) rows)))))"

section \<open>The Redis client\<close>

text \<open>
  The exceptions of the client: \<open>redis.ConnectionError\<close>, \<open>redis.TimeoutError\<close> and
  \<open>redis.ResponseError\<close> of the library, the module's own \<open>RedisConnectionError\<close>, and
  the \<open>RetryError\<close> of the retry decorator.
\<close>

datatype redis_error =
    ConnectionError
  | RedisTimeoutError
  | ResponseError
  | RedisConnectionError
  | RedisRetryError redis_error


text \<open>
  The attributes of the singleton. \<open>initializing\<close> is the attribute \<open>_initializing\<close>,
  which exists only while \<open>_initialize\<close> runs; \<open>has_pool\<close> says that \<open>_pool\<close> exists;
  \<open>pings\<close> counts the pings sent to the server so far, each one a connection attempt.
  The server is a function from the number of the ping to its outcome.
\<close>

record redis_client =
  is_connected :: bool
  connection_errors :: nat
  last_error_time :: "int option"
  initializing :: bool
  has_pool :: bool
  pings :: nat



text \<open>\<open>_handle_connection_error\<close>.\<close>

definition handle_connection_error :: "redis_client \<Rightarrow> int \<Rightarrow> redis_client" where
  "handle_connection_error c now =
     (let c1 = c\<lparr>connection_errors := connection_errors c + 1, last_error_time := Some now\<rparr>
      in if connection_errors c1 \<ge> 5 then c1\<lparr>is_connected := False\<rparr> else c1)"



section \<open>The two cache managers\<close>

subsection \<open>The cache-aside manager of the views module\<close>

text \<open>
  The Redis store holds the JSON text of serialized templates under string keys; the
  model keeps the template itself (serialization and parsing are inverse to each
  other). \<open>cache_up\<close> says whether the commands of the cache client succeed; a failing
  command raises, and \<open>get_template\<close> catches it.
\<close>

record cache_client =
  cache_up :: bool
  store :: "string \<rightharpoonup> template"

text \<open>\<open>_serialize_template\<close> of the views module: the dictionary has the organization id
  and no entry for \<open>deactivated_at\<close> and \<open>updated_by\<close>.\<close>

definition serialize_template :: "template \<Rightarrow> template" where
  "serialize_template t = t\<lparr>deactivated_at := None, updated_by := None\<rparr>"

definition make_template_cache_key :: "string \<Rightarrow> string \<Rightarrow> string \<Rightarrow> string" where
  "make_template_cache_key code' language' organization_id =
     ''template:'' @ organization_id @ '':'' @ code' @ '':'' @ language'"

definition cache_get :: "cache_client \<Rightarrow> string \<Rightarrow> redis_error + template option" where
  "cache_get cc key = (if cache_up cc then Inr (store cc key) else Inl RedisConnectionError)"

definition cache_setex :: "cache_client \<Rightarrow> string \<Rightarrow> template \<Rightarrow> redis_error + cache_client" where
  "cache_setex cc key v =
     (if cache_up cc then Inr (cc\<lparr>store := (store cc)(key \<mapsto> v)\<rparr>) else Inl RedisConnectionError)"

text \<open>\<open>TemplateCacheManager.get_template(code, language, organization_id, use_cache)\<close> of
  the views module; the result is the value returned and the cache afterwards.\<close>

definition get_template ::
  "cache_client \<Rightarrow> template list \<Rightarrow> string \<Rightarrow> string \<Rightarrow> string option \<Rightarrow> bool \<Rightarrow>
     template option \<times> cache_client" where
  "get_template cc rows code' language' organization_id use_cache =
     (case organization_id of
        None \<Rightarrow> (None, cc)
      | Some org \<Rightarrow>
          if org = [] then (None, cc)
          else
            (let cache_key = make_template_cache_key code' language' org;
                 cached_data = (if use_cache
                                then (case cache_get cc cache_key of Inl e \<Rightarrow> None | Inr d \<Rightarrow> d)
                                else None)
             in case cached_data of
                  Some d \<Rightarrow> (Some d, cc)
                | None \<Rightarrow>
                    (case get_active_template rows code' language' organization_id of
                       Inl e \<Rightarrow> (None, cc)
                     | Inr None \<Rightarrow> (None, cc)
                     | Inr (Some t) \<Rightarrow>
                         (let template_data = serialize_template t
                          in if use_cache
                             then (case cache_setex cc cache_key template_data of
                                     Inl e \<Rightarrow> (Some template_data, cc)
                                   | Inr cc' \<Rightarrow> (Some template_data, cc'))
                             else (Some template_data, cc)))))"

subsection \<open>The in-process mirror of the cache_manager module\<close>

text \<open>
  \<open>self.templates\<close>, keyed by \<open>code:language\<close>. The method has no organization
  parameter, and neither the key nor the query names an organization.
\<close>

type_synonym mirror = "string \<rightharpoonup> template"

text \<open>\<open>_serialize_template\<close> of the mirror: as above, and without the organization id.\<close>

definition mirror_serialize_template :: "template \<Rightarrow> template" where
  "mirror_serialize_template t = t\<lparr>organization := None, deactivated_at := None, updated_by := None\<rparr>"

definition mirror_cache_key :: "string \<Rightarrow> string \<Rightarrow> string" where
  "mirror_cache_key code' language' = code' @ '':'' @ language'"

text \<open>One pass through the body of the mirror's \<open>get_template\<close>, up to the test of the
  English fallback: a hit returns the cached dictionary, a miss the row found in the
  table, which is then cached.\<close>

definition mirror_lookup ::
  "mirror \<Rightarrow> template list \<Rightarrow> string \<Rightarrow> string \<Rightarrow> template option \<times> mirror" where
  "mirror_lookup templates rows code' language' =
     (let cache_key = mirror_cache_key code' language'
      in case templates cache_key of
           Some t \<Rightarrow> (Some t, templates)
         | None \<Rightarrow>
             (case first (filter (\<lambda>t. code t = code' \<and> language t = language' \<and> status t = active
                                      \<and> is_default t) rows) of
                Some t \<Rightarrow> (Some t, templates(cache_key \<mapsto> mirror_serialize_template t))
              | None \<Rightarrow> (None, templates)))"

text \<open>The mirror's \<open>get_template(code, language='en')\<close>; the recursive call for the English
  fallback cannot recurse again.\<close>

definition mirror_get_template ::
  "mirror \<Rightarrow> template list \<Rightarrow> string \<Rightarrow> string \<Rightarrow> template option \<times> mirror" where
  "mirror_get_template templates rows code' language' =
     (case mirror_lookup templates rows code' language' of
        (Some t, templates1) \<Rightarrow> (Some t, templates1)
      | (None, templates1) \<Rightarrow>
          if language' \<noteq> ''en'' then mirror_lookup templates1 rows code' ''en''
          else (None, templates1))"

section \<open>Auxiliary notions for the statements\<close>

text \<open>
  The variable stage in one pass: the text is scanned from left to right; a placeholder
  with a bound name is replaced by its value, one with an unbound name is copied and
  its name recorded, every other character is copied. \<open>process_variables\<close> computes
  the same result in two phases (lemma \<open>process_variables_scan\<close>).
\<close>

function scan_variables :: "string \<Rightarrow> variables \<Rightarrow> bool \<Rightarrow> string \<times> string list" where
  "scan_variables [] variables escape_html = ([], [])"
| "scan_variables (c # cs) variables escape_html =
     (case VARIABLE_PATTERN (c # cs) of
        Some (var_name, rest) \<Rightarrow>
          (let (out, missing) = scan_variables rest variables escape_html
           in case variables var_name of
                Some value \<Rightarrow> (substituted value escape_html @ out, missing)
              | None \<Rightarrow> (''{{'' @ var_name @ ''}}'' @ out, var_name # missing))
      | None \<Rightarrow>
          (let (out, missing) = scan_variables cs variables escape_html
           in (c # out, missing)))"
  by pat_completeness auto
termination
  by (relation "measure (\<lambda>(s, v, e). length s)")
     (auto simp: VARIABLE_PATTERN_def dest: match_tag_shorter)





text \<open>Rows for the examples: a template of organization \<open>A\<close> with the three texts given,
  and a row with the given key, organization, code, language, version, default flag and
  status.\<close>

definition example_template :: "string \<Rightarrow> string \<Rightarrow> string \<Rightarrow> template" where
  "example_template c h s =
     \<lparr>id_pk = 1, code = ''welcome'', template_type = ''email'', subject = s, content = c,
      html_content = h, organization = Some ''A'', language = ''en'', version = 1,
      is_default = True, status = active, published_at = None, deactivated_at = None,
      updated_by = Some ''system'', tags = []\<rparr>"

definition example_row ::
  "nat \<Rightarrow> string option \<Rightarrow> string \<Rightarrow> string \<Rightarrow> int \<Rightarrow> bool \<Rightarrow> status \<Rightarrow> template" where
  "example_row i org c l v d st =
     \<lparr>id_pk = i, code = c, template_type = ''email'', subject = ''Hello'', content = ''Hi {{name}}'',
      html_content = [], organization = org, language = l, version = v,
      is_default = d, status = st, published_at = None, deactivated_at = None,
      updated_by = Some ''system'', tags = []\<rparr>"

section \<open>Properties of the patterns and the stages\<close>

lemma collect_finditer:
  "length pre = i \<Longrightarrow>
   collect variables esc (finditer_variable i s) = (reps, miss) \<Longrightarrow>
     (\<forall>r \<in> set reps. i \<le> fst (fst r)) \<and> sorted reps \<and>
     foldr (\<lambda>r res. splice res r) reps (pre @ s) = pre @ fst (scan_variables s variables esc) \<and>
     miss = snd (scan_variables s variables esc)"
proof (induction i s arbitrary: pre reps miss rule: finditer_variable.induct)
  case (1 i)
  then show ?case by simp
next
  case (2 i c cs)
  show ?case
  proof (cases "VARIABLE_PATTERN (c # cs)")
    case None
    obtain out ms where sc: "scan_variables cs variables esc = (out, ms)"
      by (cases "scan_variables cs variables esc")
    from "2.prems" None have col: "collect variables esc (finditer_variable (Suc i) cs) = (reps, miss)"
      by simp
    have len: "length (pre @ [c]) = Suc i" using "2.prems" by simp
    from "2.IH"(1)[OF None len col] sc None show ?thesis
      by (auto simp: Suc_leD)
  next
    case (Some p)
    obtain var_name rest where p: "p = (var_name, rest)" by (cases p)
    from Some p have m: "match_tag ''{{'' (c # cs) = Some (var_name, rest)"
      by (simp add: VARIABLE_PATTERN_def)
    from match_tag_shape(1)[OF m] have shape: "c # cs = ''{{'' @ var_name @ ''}}'' @ rest" .
    define e where "e = i + (length (c # cs) - length rest)"
    have e: "e = i + length var_name + 4"
      unfolding e_def by (subst shape) simp
    obtain reps' miss' where col': "collect variables esc (finditer_variable e rest) = (reps', miss')"
      by (cases "collect variables esc (finditer_variable e rest)")
    obtain out ms where sc: "scan_variables rest variables esc = (out, ms)"
      by (cases "scan_variables rest variables esc")
    let ?pre' = "pre @ ''{{'' @ var_name @ ''}}''"
    have len: "length ?pre' = e" using "2.prems"(1) e by simp
    have eq: "?pre' @ rest = pre @ c # cs" by (simp add: shape)
    from "2.IH"(2)[OF Some p[symmetric] e_def len col'] sc
    have ih: "\<forall>r \<in> set reps'. e \<le> fst (fst r)" "sorted reps'"
      "foldr (\<lambda>r res. splice res r) reps' (pre @ c # cs) = ?pre' @ out" "miss' = ms"
      by (simp_all add: eq[symmetric] del: append_assoc) 
    show ?thesis
    proof (cases "variables var_name")
      case None
      with "2.prems"(2) Some p col' have "reps = reps'" "miss = var_name # miss'"
        by (simp_all add: e_def Let_def)
      with ih sc Some p None e show ?thesis
        by (auto)
    next
      case (Some v)
      with "2.prems"(2) \<open>VARIABLE_PATTERN (c # cs) = Some p\<close> p col'
      have r: "reps = ((i, e), substituted v esc) # reps'" "miss = miss'"
        by (simp_all add: e_def Let_def)
      have dr: "drop e (?pre' @ out) = out"
        using len by (metis append_eq_conv_conj)
      have tk: "take i (?pre' @ out) = pre"
        using "2.prems"(1) by simp
      have "splice (?pre' @ out) ((i, e), substituted v esc) = pre @ substituted v esc @ out"
        unfolding splice_def prod.case dr tk ..
      moreover have "\<forall>y \<in> set reps'. ((i, e), substituted v esc) \<le> y"
        using ih(1) e by (auto simp: less_eq_prod_def)
      ultimately show ?thesis
        using r ih sc Some \<open>VARIABLE_PATTERN (c # cs) = Some p\<close> p e
        by (auto)
    qed
  qed
qed

lemma process_variables_scan:
  "process_variables text variables esc = scan_variables text variables esc"
proof -
  obtain reps miss where col: "collect variables esc (finditer_variable 0 text) = (reps, miss)"
    by (cases "collect variables esc (finditer_variable 0 text)")
  from collect_finditer[of "[]" 0, OF _ col]
  have "sorted reps" "foldr (\<lambda>r res. splice res r) reps text = fst (scan_variables text variables esc)"
    "miss = snd (scan_variables text variables esc)" by simp_all
  moreover from \<open>sorted reps\<close> have "sort reps = reps" by (simp add: sort_key_id_if_sorted)
  ultimately show ?thesis
    by (simp add: process_variables_def col foldl_conv_foldr)
qed


lemma not_word_brace [simp]: "\<not> word_char CHR ''{''" "\<not> word_char CHR ''}''"
  by (simp_all add: word_char_def)


lemma starts_with_subset: "starts_with p s \<Longrightarrow> set p \<subseteq> set s"
  by (metis set_take_subset starts_with_def)

lemma starts_with_self [simp]: "starts_with p (p @ x)"
  by (simp add: starts_with_def)

lemma match_tag_exact:
  assumes "name \<noteq> []" and "\<forall>c \<in> set name. word_char c"
  shows "match_tag opener (opener @ name @ ''}}'' @ rest) = Some (name, rest)"
proof -
  have tw: "takeWhile word_char (name @ CHR ''}'' # CHR ''}'' # rest) = name"
    using assms(2) by (simp add: takeWhile_append2)
  have dw: "dropWhile word_char (name @ CHR ''}'' # CHR ''}'' # rest) = CHR ''}'' # CHR ''}'' # rest"
    using assms(2) by (simp add: dropWhile_append2)
  show ?thesis
    unfolding match_tag_def Let_def
    using assms(1) by (simp add: tw dw starts_with_def)
qed





lemma match_tag_no_brace:
  "c \<noteq> CHR ''{'' \<Longrightarrow> match_tag (CHR ''{'' # opener) (c # cs) = None"
  by (simp add: match_tag_def starts_with_def)




lemma match_variable_append:
  assumes "p \<noteq> []"
  shows "match_tag ''{{'' (p @ CHR ''{'' # CHR ''{'' # q) =
           map_option (\<lambda>(n, r). (n, r @ CHR ''{'' # CHR ''{'' # q)) (match_tag ''{{'' p)"
proof -
  let ?q = "CHR ''{'' # CHR ''{'' # q"
  consider x where "p = [x]" | x y p' where "p = x # y # p'"
    using assms by (cases p; cases "tl p") auto
  then show ?thesis
  proof cases
    case 1
    then show ?thesis by (simp add: match_tag_def starts_with_def)
  next
    case 2
    show ?thesis
    proof (cases "x = CHR ''{'' \<and> y = CHR ''{''")
      case False
      with 2 show ?thesis by (auto simp: match_tag_def starts_with_def)
    next
      case True
      show ?thesis
      proof (cases "\<forall>c \<in> set p'. word_char c")
        case all: True
        then have eqs: "takeWhile word_char (p' @ ?q) = p'" "dropWhile word_char (p' @ ?q) = ?q"
          "takeWhile word_char p' = p'" "dropWhile word_char p' = []"
          by (simp_all add: takeWhile_append2 dropWhile_append2)
        have "match_tag ''{{'' (p @ ?q) = None"
          unfolding match_tag_def Let_def using 2 True by (simp add: eqs starts_with_def)
        moreover have "match_tag ''{{'' p = None"
          unfolding match_tag_def Let_def using 2 True by (simp add: eqs starts_with_def)
        ultimately show ?thesis by simp
      next
        case False
        then obtain c where c: "c \<in> set p'" "\<not> word_char c" by blast
        let ?d = "dropWhile word_char p'"
        have tw: "takeWhile word_char (p' @ ?q) = takeWhile word_char p'"
          and dw: "dropWhile word_char (p' @ ?q) = ?d @ ?q"
          using c by (simp_all add: takeWhile_append1 dropWhile_append1)
        have dne: "?d \<noteq> []" using c by (auto simp: dropWhile_eq_Nil_conv)
        have sw: "starts_with ''}}'' (?d @ ?q) = starts_with ''}}'' ?d"
          using dne by (cases ?d rule: list.exhaust; cases "tl ?d") (auto simp: starts_with_def)
        have dr: "starts_with ''}}'' ?d \<Longrightarrow> drop 2 (?d @ ?q) = drop 2 ?d @ ?q"
          by (cases ?d rule: list.exhaust; cases "tl ?d") (auto simp: starts_with_def)
        from 2 True show ?thesis
          unfolding match_tag_def Let_def
          using dr by (simp add: tw dw sw starts_with_def[of "''{{''"])
      qed
    qed
  qed
qed

lemma scan_variables_append:
  "scan_variables (p @ CHR ''{'' # CHR ''{'' # q) variables esc =
     (fst (scan_variables p variables esc) @ fst (scan_variables (CHR ''{'' # CHR ''{'' # q) variables esc),
      snd (scan_variables p variables esc) @ snd (scan_variables (CHR ''{'' # CHR ''{'' # q) variables esc))"
proof (induction p variables esc rule: scan_variables.induct)
  case (1 variables escape_html)
  show ?case by simp
next
  case (2 c cs variables escape_html)
  let ?q = "CHR ''{'' # CHR ''{'' # q"
  have m: "VARIABLE_PATTERN ((c # cs) @ ?q) =
             map_option (\<lambda>(n, r). (n, r @ ?q)) (VARIABLE_PATTERN (c # cs))"
    unfolding VARIABLE_PATTERN_def by (rule match_variable_append) simp
  show ?case
  proof (cases "VARIABLE_PATTERN (c # cs)")
    case None
    with m have "VARIABLE_PATTERN (c # cs @ ?q) = None" by simp
    with None "2.IH"(1)[OF None] show ?thesis by (simp add: split_beta)
  next
    case (Some a)
    obtain n r where a: "a = (n, r)" by (cases a)
    with m Some have "VARIABLE_PATTERN (c # cs @ ?q) = Some (n, r @ ?q)" by simp
    with Some a "2.IH"(2)[OF Some a[symmetric]] show ?thesis
      by (simp add: split_beta split: option.splits)
  qed
qed

lemma scan_variables_placeholder:
  assumes "name \<noteq> []" and "\<forall>c \<in> set name. word_char c" and "variables name = None"
  shows "scan_variables (pre @ ''{{'' @ name @ ''}}'' @ rest) variables esc =
           (fst (scan_variables pre variables esc) @ ''{{'' @ name @ ''}}''
              @ fst (scan_variables rest variables esc),
            snd (scan_variables pre variables esc) @ name # snd (scan_variables rest variables esc))"
proof -
  have m: "VARIABLE_PATTERN (''{{'' @ name @ ''}}'' @ rest) = Some (name, rest)"
    unfolding VARIABLE_PATTERN_def by (rule match_tag_exact[OF assms(1,2)])
  have "scan_variables (''{{'' @ name @ ''}}'' @ rest) variables esc =
          (''{{'' @ name @ ''}}'' @ fst (scan_variables rest variables esc),
           name # snd (scan_variables rest variables esc))"
    using m assms(3) by (simp add: split_beta)
  then show ?thesis
    using scan_variables_append[of pre "name @ ''}}'' @ rest" variables esc] by simp
qed

lemma no_hash_conditionals:
  "CHR ''#'' \<notin> set s \<Longrightarrow> process_conditionals s variables = (s, [])"
proof (induction s)
  case Nil
  show ?case by simp
next
  case (Cons c cs)
  then have "\<not> starts_with ''{{#if '' (c # cs)"
    using starts_with_subset[of "''{{#if ''" "c # cs"] by auto
  then have "match_tag ''{{#if '' (c # cs) = None"
    by (simp add: match_tag_def)
  then have "CONDITIONAL_PATTERN (c # cs) = None"
    by (simp add: CONDITIONAL_PATTERN_def match_block_def)
  with Cons show ?case by simp
qed

lemma no_hash_loops:
  "CHR ''#'' \<notin> set s \<Longrightarrow> process_loops s variables = Inr (s, [])"
proof (induction s)
  case Nil
  show ?case by simp
next
  case (Cons c cs)
  then have "\<not> starts_with ''{{#each '' (c # cs)"
    using starts_with_subset[of "''{{#each ''" "c # cs"] by auto
  then have "match_tag ''{{#each '' (c # cs) = None"
    by (simp add: match_tag_def)
  then have "LOOP_PATTERN (c # cs) = None"
    by (simp add: LOOP_PATTERN_def match_block_def)
  with Cons show ?case by simp
qed












lemma render_stages:
  assumes "src \<noteq> []" and "process_conditionals src variables = (t1, m1)"
    and "process_loops t1 variables = Inr (t2, m2)"
  shows "render src variables esc =
           Inr (fst (process_variables t2 variables esc),
                remdups (m1 @ m2 @ snd (process_variables t2 variables esc)))"
  using assms by (simp add: render_def call_process_variables_def split_beta)


lemma render_template_single_call:
  "render_template render_timeout elapsed_at t variables calls =
     render_template_call render_timeout (elapsed_at calls) t variables calls"
  by (cases "render_try render_timeout (elapsed_at calls) t variables")
     (simp_all add: render_template_def render_template_call_def)



lemma save_member: "self \<in> set (save rows self)"
  by (auto simp: save_def)

lemma save_others:
  "t \<in> set (save rows self) \<Longrightarrow> t = self \<or> (t \<in> set rows \<and> id_pk t \<noteq> id_pk self)"
  by (auto simp: save_def split: if_splits)

text \<open>What a successful \<open>activate\<close> leaves in the table: the activated row, and no other
  default row of its code, language and organization.\<close>

lemma activate_single_default:
  assumes "activate rows self u now = (Inr True, rows')"
  shows "self\<lparr>status := active, published_at := Some now, is_default := True, updated_by := u\<rparr>
           \<in> set rows'"
    and "\<forall>t \<in> set rows'. code t = code self \<and> language t = language self
           \<and> organization t = organization self \<and> is_default t \<longrightarrow> id_pk t = id_pk self"
proof -
  let ?d = "\<lambda>t. if code t = code self \<and> language t = language self \<and> is_default t
                      \<and> organization t = organization self \<and> id_pk t \<noteq> id_pk self
                   then t\<lparr>is_default := False, updated_by := u\<rparr> else t"
  let ?self1 = "self\<lparr>status := active, published_at := Some now, is_default := True,
                       updated_by := u\<rparr>"
  from assms have r: "rows' = save (map ?d rows) ?self1"
    by (auto simp: activate_def Let_def split: if_splits)
  show "?self1 \<in> set rows'" unfolding r by (rule save_member)
  show "\<forall>t \<in> set rows'. code t = code self \<and> language t = language self
           \<and> organization t = organization self \<and> is_default t \<longrightarrow> id_pk t = id_pk self"
  proof (intro ballI impI)
    fix t assume t: "t \<in> set rows'"
      and g: "code t = code self \<and> language t = language self
           \<and> organization t = organization self \<and> is_default t"
    from save_others[OF t[unfolded r]] show "id_pk t = id_pk self"
    proof
      assume "t = ?self1" then show ?thesis by simp
    next
      assume "t \<in> set (map ?d rows) \<and> id_pk t \<noteq> id_pk ?self1"
      then obtain t0 where "t0 \<in> set rows" "t = ?d t0" "id_pk t \<noteq> id_pk self" by auto
      with g show ?thesis by (auto split: if_splits)
    qed
  qed
qed

text \<open>The key of the cache-aside manager does not separate its three parts: two
  organizations and codes can share a key.\<close>

lemma cache_key_collision:
  "make_template_cache_key ''b:c'' ''en'' ''a'' = make_template_cache_key ''c'' ''en'' ''a:b''"
  by (simp add: make_template_cache_key_def)

lemma handle_connection_error_pings [simp]:
  "pings (handle_connection_error c now) = pings c"
  by (simp add: handle_connection_error_def Let_def)










text \<open>The variable stage keeps an unbound placeholder and records its name, whatever
  surrounds it; \<open>render\<close> does so whenever the text that reaches the variable stage holds
  the placeholder.\<close>

lemma unbound_placeholder_stage:
  assumes "var_name \<noteq> []" and "\<forall>c \<in> set var_name. word_char c" and "variables var_name = None"
  shows
    "process_variables (pre @ ''{{'' @ var_name @ ''}}'' @ rest) variables escape_html =
       (fst (process_variables pre variables escape_html) @ ''{{'' @ var_name @ ''}}''
          @ fst (process_variables rest variables escape_html),
        snd (process_variables pre variables escape_html) @ var_name
          # snd (process_variables rest variables escape_html))
     \<and> (\<forall>src t1 m1 m2.
          src \<noteq> [] \<and> process_conditionals src variables = (t1, m1) \<and>
          process_loops t1 variables = Inr (pre @ ''{{'' @ var_name @ ''}}'' @ rest, m2) \<longrightarrow>
          (\<exists>missing.
             render src variables escape_html =
               Inr (fst (process_variables pre variables escape_html) @ ''{{'' @ var_name @ ''}}''
                      @ fst (process_variables rest variables escape_html), missing)
             \<and> var_name \<in> set missing))
     \<and> (CHR ''#'' \<notin> set pre \<union> set rest \<longrightarrow>
          (\<exists>missing.
             render (pre @ ''{{'' @ var_name @ ''}}'' @ rest) variables escape_html =
               Inr (fst (process_variables pre variables escape_html) @ ''{{'' @ var_name @ ''}}''
                      @ fst (process_variables rest variables escape_html), missing)
             \<and> var_name \<in> set missing))
     \<and> render ''Hi {{name}}'' Map.empty True = Inr (''Hi {{name}}'', [''name''])"
proof -
  let ?out = "fst (process_variables pre variables escape_html) @ ''{{'' @ var_name @ ''}}''
                @ fst (process_variables rest variables escape_html)"
  have stage: "process_variables (pre @ ''{{'' @ var_name @ ''}}'' @ rest) variables escape_html =
       (?out, snd (process_variables pre variables escape_html) @ var_name
          # snd (process_variables rest variables escape_html))"
    unfolding process_variables_scan
    by (rule scan_variables_placeholder[of var_name variables, OF assms])
  have through: "\<exists>missing. render src variables escape_html = Inr (?out, missing) \<and> var_name \<in> set missing"
    if "src \<noteq> []" and "process_conditionals src variables = (t1, m1)"
      and "process_loops t1 variables = Inr (pre @ ''{{'' @ var_name @ ''}}'' @ rest, m2)"
    for src t1 m1 m2
    using render_stages[OF that, of escape_html] stage by simp
  have hash: "\<exists>missing. render (pre @ ''{{'' @ var_name @ ''}}'' @ rest) variables escape_html
                  = Inr (?out, missing) \<and> var_name \<in> set missing"
    if "CHR ''#'' \<notin> set pre \<union> set rest"
  proof -
    from that assms(2) have nh: "CHR ''#'' \<notin> set (pre @ ''{{'' @ var_name @ ''}}'' @ rest)"
      by (auto simp: word_char_def)
    show ?thesis
      by (rule through[OF _ no_hash_conditionals[OF nh] no_hash_loops[OF nh]]) simp
  qed
  have ex: "render ''Hi {{name}}'' Map.empty True = Inr (''Hi {{name}}'', [''name''])"
    by code_simp
  from stage through hash ex show ?thesis by blast
qed

text \<open>Two rows with an organization that agree on the columns of a UNIQUE constraint are
  one row.\<close>

lemma unique_on_inj:
  assumes "unique_on key rows" and "a \<in> set rows" and "b \<in> set rows"
    and "organization a \<noteq> None" and "organization b \<noteq> None" and "key a = key b"
  shows "a = b"
proof -
  from assms(1) have "inj_on key (set (filter (\<lambda>t. organization t \<noteq> None) rows))"
    unfolding unique_on_def by (simp add: distinct_map)
  with assms(2-6) show ?thesis by (auto dest: inj_onD)
qed

text \<open>On a table that satisfies the constraints, \<open>archive\<close> on a stored default version
  with another active version of its code, language and organization never succeeds:
  the saved row and the other version are both non-default.\<close>

lemma archive_default_never_succeeds:
  assumes valid: "unique_together rows" and stored: "self \<in> set rows"
    and d: "is_default self" and st: "status self \<noteq> archived" and org: "organization self \<noteq> None"
    and other: "t \<in> set rows" "code t = code self" "language t = language self"
      "organization t = organization self" "status t = active" "id_pk t \<noteq> id_pk self"
  shows "archive rows self u now = (Inl IntegrityError, rows)"
proof -
  let ?key = "\<lambda>t. (code t, language t, is_default t, organization t)"
  let ?self1 = "self\<lparr>status := archived, deactivated_at := Some now, is_default := False,
                      updated_by := u\<rparr>"
  from valid have u2: "unique_on ?key rows" by (simp add: unique_together_def)
  have nd: "\<not> is_default t"
  proof
    assume "is_default t"
    with other d have "?key t = ?key self" by simp
    from unique_on_inj[OF u2 other(1) stored _ org this] other(4) org have "t = self" by simp
    with other(6) show False by simp
  qed
  have ex: "\<exists>x \<in> set rows. id_pk x = id_pk ?self1" using stored by auto
  have m1: "t \<in> set (save rows ?self1)"
    using other(1,6) ex unfolding save_def by (auto simp: image_iff intro!: bexI[of _ t])
  have m2: "?self1 \<in> set (save rows ?self1)" by (rule save_member)
  have "\<not> unique_on ?key (save rows ?self1)"
  proof
    assume a: "unique_on ?key (save rows ?self1)"
    have k: "?key t = ?key ?self1" using nd other by simp
    from unique_on_inj[OF a m1 m2 _ _ k] other(4) org have "t = ?self1" by simp
    then have "id_pk t = id_pk ?self1" by (rule arg_cong)
    with other(6) show False by simp
  qed
  then have "\<not> unique_together (save rows ?self1)" by (simp add: unique_together_def)
  moreover have "\<exists>t \<in> set rows. code t = code self \<and> language t = language self \<and> status t = active
                     \<and> organization t = organization self \<and> id_pk t \<noteq> id_pk self"
    using other by blast
  ultimately show ?thesis using st org by (simp add: archive_def Let_def)
qed

section \<open>The claims\<close>

text \<open>
  C1. The in-process mirror is not scoped by organization. With an active default
  template \<open>welcome\<close>/\<open>en\<close> of organization A (version 1) and one of organization B
  (version 2) in the table, the mirror's \<open>get_template("welcome", "en")\<close>, which takes no
  organization id and searches the whole table, returns B's row to every caller, and
  from then on B's cached copy. The cache-aside manager of the views module does what
  the claim says on the same table: scoped to A it returns A's row, and without an
  organization id it returns \<open>None\<close>.
\<close>

theorem mirror_ignores_organization:
  "fst (mirror_get_template Map.empty
          [example_row 1 (Some ''A'') ''welcome'' ''en'' 1 True active,
           example_row 2 (Some ''B'') ''welcome'' ''en'' 2 True active] ''welcome'' ''en'')
     = Some (example_row 2 (Some ''B'') ''welcome'' ''en'' 2 True active)
   \<and> fst (mirror_get_template
            (snd (mirror_get_template Map.empty
                    [example_row 1 (Some ''A'') ''welcome'' ''en'' 1 True active,
                     example_row 2 (Some ''B'') ''welcome'' ''en'' 2 True active] ''welcome'' ''en''))
            [example_row 1 (Some ''A'') ''welcome'' ''en'' 1 True active,
             example_row 2 (Some ''B'') ''welcome'' ''en'' 2 True active] ''welcome'' ''en'')
     = Some (mirror_serialize_template (example_row 2 (Some ''B'') ''welcome'' ''en'' 2 True active))
   \<and> fst (get_template \<lparr>cache_up = True, store = Map.empty\<rparr>
            [example_row 1 (Some ''A'') ''welcome'' ''en'' 1 True active,
             example_row 2 (Some ''B'') ''welcome'' ''en'' 2 True active]
            ''welcome'' ''en'' (Some ''A'') True)
     = Some (serialize_template (example_row 1 (Some ''A'') ''welcome'' ''en'' 1 True active))
   \<and> fst (get_template cc rows c l None use_cache) = None
   \<and> fst (get_template cc rows c l (Some []) use_cache) = None"
  by (simp add: mirror_get_template_def mirror_lookup_def mirror_cache_key_def
        get_template_def get_active_template_def make_template_cache_key_def cache_get_def
        cache_setex_def first_def order_by_version_desc_def example_row_def
        serialize_template_def mirror_serialize_template_def Let_def)

text \<open>
  C2 (as amended). When the attempt does not time out, \<open>render_template\<close> renders
  content, then html_content, then subject, each only when it is not empty, and stops
  at the first field whose list of missing names is not empty, the earlier fields
  having rendered with no name missing: it raises a \<open>RenderError\<close> raised from the
  \<open>VariableMissingError\<close> of that field, which reports the missing names of that field
  alone.
\<close>

theorem first_missing_field_reported:
  assumes "elapsed_at calls \<le> render_timeout"
  shows
    "(\<forall>out missing.
        content t \<noteq> [] \<and> render (content t) variables True = Inr (out, missing) \<and> missing \<noteq> [] \<longrightarrow>
        fst (render_template render_timeout elapsed_at t variables calls) =
          Inl (RenderError (VariableMissingError Content missing)))
     \<and> (\<forall>out missing.
        (content t = [] \<or> (\<exists>r. render (content t) variables True = Inr (r, []))) \<and>
        html_content t \<noteq> [] \<and> render (html_content t) variables True = Inr (out, missing) \<and>
        missing \<noteq> [] \<longrightarrow>
        fst (render_template render_timeout elapsed_at t variables calls) =
          Inl (RenderError (VariableMissingError HtmlContent missing)))
     \<and> (\<forall>out missing.
        (content t = [] \<or> (\<exists>r. render (content t) variables True = Inr (r, []))) \<and>
        (html_content t = [] \<or> (\<exists>r. render (html_content t) variables True = Inr (r, []))) \<and>
        subject t \<noteq> [] \<and> render (subject t) variables True = Inr (out, missing) \<and>
        missing \<noteq> [] \<longrightarrow>
        fst (render_template render_timeout elapsed_at t variables calls) =
          Inl (RenderError (VariableMissingError Subject missing)))"
  unfolding render_template_single_call
  using assms
  by (auto simp: render_template_call_def render_try_def render_field_def)

text \<open>An instance: the content renders, the HTML content misses \<open>b\<close>, and the subject,
  which misses \<open>c\<close>, is not reached.\<close>

theorem first_missing_field_reported_witness:
  "(0::int) \<le> 30
   \<and> fst (render_template 30 (\<lambda>n. 0) (example_template ''Hi'' ''<b>{{b}}</b>'' ''{{c}}'')
            Map.empty 0) =
       Inl (RenderError (VariableMissingError HtmlContent [''b'']))"
proof -
  have h: "(\<lambda>n. 0::int) (0::nat) \<le> 30" by simp
  have c: "render ''Hi'' Map.empty True = Inr (''Hi'', [])" by code_simp
  have b: "render ''<b>{{b}}</b>'' Map.empty True = Inr (''<b>{{b}}</b>'', [''b''])" by code_simp
  from first_missing_field_reported[OF h, of "example_template ''Hi'' ''<b>{{b}}</b>'' ''{{c}}''"
      Map.empty, THEN conjunct2, THEN conjunct1, rule_format,
      of "''<b>{{b}}</b>''" "[''b'']"]
  show ?thesis
    by (simp add: example_template_def c b)
qed

text \<open>The claim as stated fails: with content \<open>{{a}}\<close> and HTML content \<open>{{b}}\<close> and no
  variable bound, the error reports \<open>a\<close> only, not the union \<open>{a, b}\<close>.\<close>

theorem missing_union_counterexample:
  "fst (render_template 30 (\<lambda>n. 0) (example_template ''{{a}}'' ''{{b}}'' []) Map.empty 0)
     = Inl (RenderError (VariableMissingError Content [''a'']))
   \<and> render ''{{a}}'' Map.empty True = Inr (''{{a}}'', [''a''])
   \<and> render ''{{b}}'' Map.empty True = Inr (''{{b}}'', [''b''])"
proof -
  have a: "render ''{{a}}'' Map.empty True = Inr (''{{a}}'', [''a''])" by code_simp
  have b: "render ''{{b}}'' Map.empty True = Inr (''{{b}}'', [''b''])" by code_simp
  show ?thesis
    unfolding render_template_single_call
    by (simp add: render_template_call_def render_try_def render_field_def example_template_def a b)
qed

text \<open>
  C3. The loop stage on a name bound to a list with at least one element: the callback
  calls \<open>_process_variables\<close> without its third argument, so the replacement raises
  \<open>TypeError\<close> whatever the block and the items are, and
  \<open>render("{{#each items}}{{item}},{{/each}}", {"items": ["a", "b"]})\<close> raises \<open>TypeError\<close>
  where the specification expects \<open>"a,b,"\<close>.
\<close>

theorem loop_over_items_raises:
  "replace_loop (variables(var_name \<mapsto> PList (item # items))) var_name block_content = Inl TypeError
   \<and> render ''{{#each items}}{{item}},{{/each}}'' [''items'' \<mapsto> PList [PStr ''a'', PStr ''b'']] True
       = Inl TypeError"
proof -
  have "replace_loop (variables(var_name \<mapsto> PList (item # items))) var_name block_content
          = Inl TypeError"
    by (simp add: replace_loop_def call_process_variables_def)
  moreover have "render ''{{#each items}}{{item}},{{/each}}''
                   [''items'' \<mapsto> PList [PStr ''a'', PStr ''b'']] True = Inl TypeError"
    by code_simp
  ultimately show ?thesis by simp
qed

text \<open>
  C4. The decorated \<open>render_template\<close> is one call of the undecorated function, for every
  input: each exception leaves the function as a plain \<open>RenderError\<close>, which the retry
  predicate rejects, so exactly one attempt is made. In particular an attempt that
  times out (31 ticks elapsed against a timeout of 30) is not repeated: one call is
  made and \<open>RenderError\<close> is raised.
\<close>

theorem timeout_not_retried:
  "render_template render_timeout elapsed_at t variables calls =
     render_template_call render_timeout (elapsed_at calls) t variables calls
   \<and> snd (render_template render_timeout elapsed_at t variables calls) = Suc calls
   \<and> render_template 30 (\<lambda>n. 31) (example_template ''Hi'' [] []) Map.empty 0 =
       (Inl (RenderError TimeoutError), 1)"
proof -
  have one: "snd (render_template_call rt el t variables calls) = Suc calls" for rt el
    by (simp add: render_template_call_def split: sum.splits)
  have ex: "render_template_call 30 31 (example_template ''Hi'' [] []) Map.empty 0 =
       (Inl (RenderError TimeoutError), 1)"
    by (simp add: render_template_call_def render_try_def example_template_def)
  show ?thesis
    unfolding render_template_single_call using one ex by simp
qed

text \<open>
  C5. The second constraint of \<open>unique_together\<close> covers rows with \<open>is_default = False\<close> as
  well. A table with the active default version 1 and the draft version 2 of one code,
  language and organization satisfies the constraints; \<open>activate\<close> on version 2 then
  fails with \<open>IntegrityError\<close> at the statement that clears the flag of version 1 (both
  rows would be non-default), leaving the table unchanged; and a third row that is a
  second draft breaks the constraint.
\<close>

theorem second_version_rejected:
  "unique_together
     [example_row 1 (Some ''A'') ''welcome'' ''en'' 1 True active,
      example_row 2 (Some ''A'') ''welcome'' ''en'' 2 False draft]
   \<and> activate
       [example_row 1 (Some ''A'') ''welcome'' ''en'' 1 True active,
        example_row 2 (Some ''A'') ''welcome'' ''en'' 2 False draft]
       (example_row 2 (Some ''A'') ''welcome'' ''en'' 2 False draft) (Some ''editor'') 100
     = (Inl IntegrityError,
        [example_row 1 (Some ''A'') ''welcome'' ''en'' 1 True active,
         example_row 2 (Some ''A'') ''welcome'' ''en'' 2 False draft])
   \<and> \<not> unique_together
         [example_row 1 (Some ''A'') ''welcome'' ''en'' 1 True active,
          example_row 2 (Some ''A'') ''welcome'' ''en'' 2 False draft,
          example_row 3 (Some ''A'') ''welcome'' ''en'' 3 False draft]"
  by (simp add: activate_def unique_together_def unique_on_def example_row_def)




text \<open>
  C7. A text with an unbound placeholder beside a loop over a list with an element:
  the variable stage alone keeps \<open>{{name}}\<close> and reports \<open>name\<close>, but \<open>render\<close> never
  reaches it, because the loop stage raises \<open>TypeError\<close>; no output and no missing names
  are returned. Without the loop block \<open>render("Hi {{name}}", {})\<close> gives \<open>"Hi {{name}}"\<close>
  with the missing names \<open>["name"]\<close>.
\<close>

theorem placeholder_lost_beside_loop:
  "render ''Hi {{name}} {{#each xs}}a{{/each}}'' [''xs'' \<mapsto> PList [PInt 1]] True = Inl TypeError
   \<and> process_variables ''Hi {{name}} {{#each xs}}a{{/each}}'' [''xs'' \<mapsto> PList [PInt 1]] True
       = (''Hi {{name}} {{#each xs}}a{{/each}}'', [''name''])
   \<and> render ''Hi {{name}}'' Map.empty True = Inr (''Hi {{name}}'', [''name''])"
proof -
  have a: "render ''Hi {{name}} {{#each xs}}a{{/each}}'' [''xs'' \<mapsto> PList [PInt 1]] True
             = Inl TypeError"
    by code_simp
  have b: "process_variables ''Hi {{name}} {{#each xs}}a{{/each}}'' [''xs'' \<mapsto> PList [PInt 1]] True
             = (''Hi {{name}} {{#each xs}}a{{/each}}'', [''name''])"
    by code_simp
  have c: "render ''Hi {{name}}'' Map.empty True = Inr (''Hi {{name}}'', [''name''])"
    by code_simp
  from a b c show ?thesis by simp
qed




text \<open>
  C9. A table with the active default version 1 and the active version 2 of one code,
  language and organization satisfies the constraints, and another active version
  exists, so \<open>archive\<close> on version 1 passes its guard; the saved row has
  \<open>is_default = False\<close> like version 2, the second constraint of \<open>unique_together\<close> rejects
  it, and \<open>archive\<close> fails with \<open>IntegrityError\<close>, leaving the table unchanged. The guard
  itself works: with version 2 a draft, the same call raises \<open>ValidationError\<close>.
\<close>

theorem archive_default_rejected:
  "unique_together
     [example_row 1 (Some ''A'') ''welcome'' ''en'' 1 True active,
      example_row 2 (Some ''A'') ''welcome'' ''en'' 2 False active]
   \<and> archive
       [example_row 1 (Some ''A'') ''welcome'' ''en'' 1 True active,
        example_row 2 (Some ''A'') ''welcome'' ''en'' 2 False active]
       (example_row 1 (Some ''A'') ''welcome'' ''en'' 1 True active) (Some ''editor'') 100
     = (Inl IntegrityError,
        [example_row 1 (Some ''A'') ''welcome'' ''en'' 1 True active,
         example_row 2 (Some ''A'') ''welcome'' ''en'' 2 False active])
   \<and> archive
       [example_row 1 (Some ''A'') ''welcome'' ''en'' 1 True active,
        example_row 2 (Some ''A'') ''welcome'' ''en'' 2 False draft]
       (example_row 1 (Some ''A'') ''welcome'' ''en'' 1 True active) (Some ''editor'') 100
     = (Inl ValidationError,
        [example_row 1 (Some ''A'') ''welcome'' ''en'' 1 True active,
         example_row 2 (Some ''A'') ''welcome'' ''en'' 2 False draft])"
  by (simp add: archive_def save_def unique_together_def unique_on_def example_row_def)



end
